theory Spec2Isabelle
  imports
    Main
    "HOL-Library.Multiset"
    "HOL-Library.Word"
    "HOL-Library.Char_ord"
    "HOL-Library.List_Lexorder"
begin

section \<open>Events, templates and filters\<close>

text \<open>
  The application (src/App.tsx) is glue over the nostr-tools relay pool, the query cache of
  react-query, the browser's \<^verbatim>\<open>fetch\<close>, \<^verbatim>\<open>crypto.subtle\<close> and
  \<^verbatim>\<open>Promise.any\<close>. The functions of App.tsx are embedded here; what they
  call outside the repository is an argument of the embedding (the record \<open>world\<close> below),
  and every call that leaves the program is written to a log of effects.

  An event template is what the program hands to a signer (\<^verbatim>\<open>kind\<close>,
  \<^verbatim>\<open>created_at\<close>, \<^verbatim>\<open>tags\<close>, \<^verbatim>\<open>content\<close>);
  a signed event has an id, a public key and a signature on top of these.
\<close>

record template =
  kind :: int
  created_at :: int
  tags :: "string list list"
  content :: string

record event = template +
  ev_id :: string
  pubkey :: string
  sig :: string

record filter_spec =
  kinds :: "int list"
  authors :: "string list option"
  limit :: "nat option"


section \<open>JavaScript values, errors and promises\<close>

text \<open>
  What \<^verbatim>\<open>response.json()\<close> and \<^verbatim>\<open>JSON.parse\<close> hand back is
  typed \<^verbatim>\<open>any\<close> in the source. A number is carried as the text JavaScript
  prints for it.
\<close>

datatype jsval =
    JUndefined
  | JNull
  | JBool bool
  | JNum string
  | JStr string
  | JArr "jsval list"
  | JObj "(string \<times> jsval) list"

text \<open>
  A thrown value: \<^verbatim>\<open>new Error(message)\<close>, the
  \<^verbatim>\<open>TypeError\<close> of a property read on \<^verbatim>\<open>null\<close>, and the
  \<^verbatim>\<open>AggregateError\<close> of \<^verbatim>\<open>Promise.any\<close> with its
  \<^verbatim>\<open>errors\<close> array (a slot is \<open>None\<close> while it holds
  \<^verbatim>\<open>undefined\<close>).
\<close>

datatype error =
    Error string
  | TypeError
  | AggregateError "string option list"

datatype ('v, 'e) settled = Fulfilled 'v | Rejected 'e

fun rejection :: "('v, 'e) settled \<Rightarrow> 'e option" where
  "rejection (Rejected e) = Some e"
| "rejection (Fulfilled v) = None"

text \<open>\<^verbatim>\<open>if (x)\<close> on a \<^verbatim>\<open>string | null\<close>: \<^verbatim>\<open>null\<close>
  and the empty string are falsy.\<close>

fun truthy :: "string option \<Rightarrow> bool" where
  "truthy None = False"
| "truthy (Some s) = (s \<noteq> [])"

fun join_strings :: "string \<Rightarrow> string list \<Rightarrow> string" where
  "join_strings sep [] = []"
| "join_strings sep [x] = x"
| "join_strings sep (x # y # ys) = x @ sep @ join_strings sep (y # ys)"

text \<open>\<^verbatim>\<open>String(v)\<close>; inside \<^verbatim>\<open>join\<close>,
  \<^verbatim>\<open>undefined\<close> and \<^verbatim>\<open>null\<close> print as the empty string.\<close>

fun js_to_string :: "jsval \<Rightarrow> string" where
  "js_to_string JUndefined = ''undefined''"
| "js_to_string JNull = ''null''"
| "js_to_string (JBool b) = (if b then ''true'' else ''false'')"
| "js_to_string (JNum s) = s"
| "js_to_string (JStr s) = s"
| "js_to_string (JArr xs) =
     join_strings '','' (map (\<lambda>x. if x = JUndefined \<or> x = JNull then [] else js_to_string x) xs)"
| "js_to_string (JObj kvs) = ''[object Object]''"

definition js_join :: "string \<Rightarrow> jsval list \<Rightarrow> string" where
  "js_join sep xs =
     join_strings sep (map (\<lambda>x. if x = JUndefined \<or> x = JNull then [] else js_to_string x) xs)"

text \<open>
  \<^verbatim>\<open>data.url\<close>: a \<^verbatim>\<open>TypeError\<close> on \<^verbatim>\<open>null\<close>,
  the member of an object (the last one of that name), \<^verbatim>\<open>undefined\<close> on
  anything else.
\<close>

fun prop_url :: "jsval \<Rightarrow> error + jsval" where
  "prop_url JUndefined = Inl TypeError"
| "prop_url JNull = Inl TypeError"
| "prop_url (JObj kvs) = Inr (case map_of (rev kvs) ''url'' of None \<Rightarrow> JUndefined | Some v \<Rightarrow> v)"
| "prop_url v = Inr JUndefined"

text \<open>\<^verbatim>\<open>Array.from(new Set(xs))\<close>: the first occurrence of each element, in order.\<close>

definition set_to_array :: "'a list \<Rightarrow> 'a list" where
  "set_to_array xs = rev (remdups (rev xs))"


subsection \<open>\<^verbatim>\<open>Promise.any\<close>\<close>

text \<open>
  \<^verbatim>\<open>Promise.any(promises)\<close> keeps one slot of \<^verbatim>\<open>errors\<close> per
  promise. A promise that fulfils settles the result, if it is still pending; a promise that
  rejects fills its slot, and the result is rejected with the
  \<^verbatim>\<open>AggregateError\<close> of all slots once none is empty. With no promise at
  all, the result is rejected at once. A result that is settled stays as it is.
\<close>

record ('v, 'e) any_state =
  errors :: "'e option list"
  outcome :: "('v, 'e option list) settled option"

definition any_init :: "nat \<Rightarrow> ('v, 'e) any_state" where
  "any_init n =
     \<lparr>errors = replicate n None, outcome = (if n = 0 then Some (Rejected []) else None)\<rparr>"

fun any_step :: "('v, 'e) any_state \<Rightarrow> nat \<times> ('v, 'e) settled \<Rightarrow> ('v, 'e) any_state" where
  "any_step s (i, Fulfilled v) =
     (case outcome s of None \<Rightarrow> s\<lparr>outcome := Some (Fulfilled v)\<rparr> | Some r \<Rightarrow> s)"
| "any_step s (i, Rejected e) =
     (let errs = (errors s)[i := Some e] in
        s\<lparr>errors := errs,
          outcome := (case outcome s of
                        None \<Rightarrow> if list_all (\<lambda>x. x \<noteq> None) errs then Some (Rejected errs) else None
                      | Some r \<Rightarrow> Some r)\<rparr>)"

text \<open>
  The promises \<open>outs\<close> settle in the order \<open>sched\<close> (indices into \<open>outs\<close>; an index
  that names no promise is skipped). \<open>sched\<close> lists the promises that have settled so
  far: the others are still in flight. The result is \<open>None\<close> while the
  \<^verbatim>\<open>await\<close> is pending.
\<close>

definition any_run :: "('v, 'e) settled list \<Rightarrow> nat list \<Rightarrow> ('v, 'e) any_state" where
  "any_run outs sched =
     foldl any_step (any_init (length outs))
       (map (\<lambda>i. (i, outs ! i)) (filter (\<lambda>i. i < length outs) sched))"

definition promise_any ::
  "('v, 'e) settled list \<Rightarrow> nat list \<Rightarrow> ('v, 'e option list) settled option" where
  "promise_any outs sched = outcome (any_run outs sched)"


section \<open>The world outside the program, and the state of the component\<close>

record js_file =
  file_name :: string
  file_bytes :: "8 word list"

record request =
  req_url :: string
  req_method :: string
  req_headers :: "(string \<times> string) list"
  req_body :: js_file

record response =
  resp_ok :: bool
  resp_json :: "error + jsval"

text \<open>
  Every call that leaves the program, in the order the program makes it. The last one is
  not a call: it is an error thrown outside any \<^verbatim>\<open>try\<close>, while React applies
  a state update; nothing catches it and no alert shows it.
\<close>

datatype effect =
    LocalSign template string
  | ExtensionSign template
  | RelayWrite string event
  | RelayQuery "string list" filter_spec
  | Fetch request
  | Alert error
  | Uncaught error

text \<open>
  What the program calls and does not define. A function that can throw or reject returns
  \<open>Inl\<close> of the thrown value.
  \<^item> \<open>date_now\<close>: \<^verbatim>\<open>Date.now()\<close>, in milliseconds;
  \<^item> \<open>parseInt16\<close>: \<^verbatim>\<open>parseInt(s, 16)\<close> as a \<^verbatim>\<open>Uint8Array\<close> stores it;
  \<^item> \<open>finalizeEvent\<close>: nostr-tools' signing with a secret key;
  \<^item> \<open>window_nostr\<close>: \<^verbatim>\<open>window.nostr\<close>, when there is one, by its \<^verbatim>\<open>signEvent\<close>;
  \<^item> \<open>querySync\<close>: what \<^verbatim>\<open>pool.querySync(relays, filter)\<close> resolves with;
  \<^item> \<open>querySync_settles\<close>: whether that promise resolves at all;
  \<^item> \<open>relay_publish\<close>: how the promise of \<^verbatim>\<open>pool.publish\<close> for the relay at an index settles;
  \<^item> \<open>json_parse\<close>: \<^verbatim>\<open>JSON.parse\<close>, \<open>None\<close> where it throws;
  \<^item> \<open>unreadable\<close>: the rejection of \<^verbatim>\<open>file.arrayBuffer()\<close>, if it rejects;
  \<^item> \<open>sha256_digest\<close>: \<^verbatim>\<open>crypto.subtle.digest('SHA-256', buffer)\<close>;
  \<^item> \<open>btoa_stringify\<close>: \<^verbatim>\<open>btoa(JSON.stringify(event))\<close>;
  \<^item> \<open>fetch\<close>: \<^verbatim>\<open>fetch(url, init)\<close>, awaited;
  \<^item> \<open>js_trim\<close>: \<^verbatim>\<open>String.prototype.trim\<close>.
\<close>

record world =
  date_now :: int
  parseInt16 :: "string \<Rightarrow> 8 word"
  finalizeEvent :: "template \<Rightarrow> 8 word list \<Rightarrow> error + event"
  window_nostr :: "(template \<Rightarrow> error + event) option"
  querySync :: "string list \<Rightarrow> filter_spec \<Rightarrow> event list"
  relay_publish :: "nat \<Rightarrow> string \<Rightarrow> event \<Rightarrow> (string, string) settled"
  json_parse :: "string \<Rightarrow> jsval option"
  unreadable :: "js_file \<Rightarrow> error option"
  sha256_digest :: "8 word list \<Rightarrow> error + 8 word list"
  btoa_stringify :: "event \<Rightarrow> error + string"
  fetch :: "request \<Rightarrow> error + response"
  js_trim :: "string \<Rightarrow> string"
  querySync_settles :: "string list \<Rightarrow> filter_spec \<Rightarrow> bool"

text \<open>
  The props and the state of \<^verbatim>\<open>NostalgiaApp\<close>, with the two entries of the
  query cache it reads and writes: the notes under the key
  \<^verbatim>\<open>['nostr_notes', relays]\<close>, and the metadata, with the time it was
  fetched, under \<^verbatim>\<open>['nostr_metadata', authorPubkeys, relays]\<close>.
\<close>

record session =
  relays :: "string list"
  userPk :: "string option"
  userSk :: "string option"
  postContent :: string
  attachments :: "jsval list"
  isUploading :: bool
  notes_data :: "string list \<rightharpoonup> event list"
  metadata_data :: "(string list \<times> string list) \<rightharpoonup> ((string \<rightharpoonup> jsval) \<times> int)"


section \<open>Utilities (App.tsx, lines 45-56)\<close>

definition hexToBytes :: "world \<Rightarrow> string \<Rightarrow> 8 word list" where
  "hexToBytes w hex =
     map (\<lambda>k. parseInt16 w (take 2 (drop (2 * k) hex))) [0..<length hex div 2]"

definition hex_digit :: "nat \<Rightarrow> char" where
  "hex_digit n = ''0123456789abcdef'' ! n"

definition byte_hex :: "8 word \<Rightarrow> string" where
  "byte_hex b = [hex_digit (unat b div 16), hex_digit (unat b mod 16)]"

definition bytesToHex :: "8 word list \<Rightarrow> string" where
  "bytesToHex bytes = concat (map byte_hex bytes)"

definition BLOSSOM_SERVERS :: "string list" where
  "BLOSSOM_SERVERS =
     [''https://blossom.nostr.wine'', ''https://satellite.earth'', ''https://nostrcheck.me'']"

section \<open>The feed query (App.tsx, lines 425-432)\<close>

text \<open>
  \<^verbatim>\<open>Array.prototype.sort(cmp)\<close> is a stable sort: an element goes before
  the first element it does not compare greater than. It is embedded as an insertion sort
  that takes the comparator of the source.
\<close>

fun insert_by :: "('a \<Rightarrow> 'a \<Rightarrow> int) \<Rightarrow> 'a \<Rightarrow> 'a list \<Rightarrow> 'a list" where
  "insert_by cmp x [] = [x]"
| "insert_by cmp x (y # ys) =
     (if cmp x y \<le> 0 then x # y # ys else y # insert_by cmp x ys)"

definition js_sort :: "('a \<Rightarrow> 'a \<Rightarrow> int) \<Rightarrow> 'a list \<Rightarrow> 'a list" where
  "js_sort cmp xs = foldr (insert_by cmp) xs []"

text \<open>\<^verbatim>\<open>(a, b) => b.created_at - a.created_at\<close>\<close>

definition by_created_at_desc :: "event \<Rightarrow> event \<Rightarrow> int" where
  "by_created_at_desc a b = created_at b - created_at a"

text \<open>\<^verbatim>\<open>{ kinds: [1], limit: 50 }\<close>\<close>

definition notes_filter :: filter_spec where
  "notes_filter = \<lparr>kinds = [1], authors = None, limit = Some 50\<rparr>"

text \<open>
  \<^verbatim>\<open>queryFn\<close> of the notes query: the events the pool hands back for
  the list of relays, in the order the pool collected them, sorted.
\<close>

definition notes_queryFn :: "world \<Rightarrow> string list \<Rightarrow> event list" where
  "notes_queryFn w rs = js_sort by_created_at_desc (querySync w rs notes_filter)"

text \<open>
  The promise of \<^verbatim>\<open>queryFn\<close>: it stays pending (\<open>None\<close>) when the
  promise of the pool never resolves, and resolves with the sorted events otherwise.
\<close>

definition notes_query_result :: "world \<Rightarrow> string list \<Rightarrow> event list option" where
  "notes_query_result w rs =
     (if querySync_settles w rs notes_filter then Some (notes_queryFn w rs) else None)"

text \<open>
  The order the specification describes, for comparison: \<^verbatim>\<open>created_at\<close>
  descending, ties broken by \<^verbatim>\<open>id\<close> in lexicographic order.
\<close>

definition by_created_at_desc_then_id :: "event \<Rightarrow> event \<Rightarrow> int" where
  "by_created_at_desc_then_id a b =
     (if created_at a \<noteq> created_at b then created_at b - created_at a
      else if ev_id a < ev_id b then - 1
      else if ev_id a = ev_id b then 0
      else 1)"

definition spec_feed_order :: "event list \<Rightarrow> event list" where
  "spec_feed_order evs = js_sort by_created_at_desc_then_id evs"


section \<open>Signing (App.tsx, lines 471-478 and 515-522)\<close>

text \<open>
  The same three branches stand in \<^verbatim>\<open>uploadToBlossom\<close> and in
  \<^verbatim>\<open>mutationFn\<close>; they differ in the message of the last one, which is the
  argument \<open>unavailable\<close>.
\<close>

definition sign_with_extension ::
  "world \<Rightarrow> string \<Rightarrow> template \<Rightarrow> (error + event) \<times> effect list" where
  "sign_with_extension w unavailable eventTemplate =
     (case window_nostr w of
        Some signEvent \<Rightarrow> (signEvent eventTemplate, [ExtensionSign eventTemplate])
      | None \<Rightarrow> (Inl (Error unavailable), []))"

fun sign_event ::
  "world \<Rightarrow> string option \<Rightarrow> string \<Rightarrow> template \<Rightarrow> (error + event) \<times> effect list" where
  "sign_event w (Some sk) unavailable eventTemplate =
     (if sk \<noteq> []
      then (finalizeEvent w eventTemplate (hexToBytes w sk), [LocalSign eventTemplate sk])
      else sign_with_extension w unavailable eventTemplate)"
| "sign_event w None unavailable eventTemplate =
     sign_with_extension w unavailable eventTemplate"



section \<open>Publishing a note (App.tsx, lines 499-533)\<close>

text \<open>\<^verbatim>\<open>pool.publish(relays, event)\<close>: one promise per relay of the list.\<close>

definition pool_publish :: "world \<Rightarrow> string list \<Rightarrow> event \<Rightarrow> (string, string) settled list" where
  "pool_publish w rs ev = map (\<lambda>(i, r). relay_publish w i r ev) (enumerate 0 rs)"

definition note_template :: "world \<Rightarrow> session \<Rightarrow> string \<Rightarrow> template" where
  "note_template w s content' =
     \<lparr>kind = 1,
      created_at = date_now w div 1000,
      tags = [],
      content = (if length (attachments s) > 0
                 then content' @ [CHR 0x0A, CHR 0x0A] @ js_join [CHR 0x0A] (attachments s)
                 else content')\<rparr>"

text \<open>
  \<open>sched\<close> is the order in which the writes have settled so far. The first component
  of the result is \<open>None\<close> while \<^verbatim>\<open>mutationFn\<close> is still awaiting,
  \<open>Some (Inl e)\<close> when it has thrown \<open>e\<close> and \<open>Some (Inr event)\<close> when it
  has returned.
\<close>

definition mutationFn ::
  "world \<Rightarrow> session \<Rightarrow> nat list \<Rightarrow> string \<Rightarrow> (error + event) option \<times> effect list" where
  "mutationFn w s sched content' =
     (if \<not> truthy (userPk s) then (Some (Inl (Error ''Not logged in'')), [])
      else
        (case sign_event w (userSk s) ''No signing method available'' (note_template w s content') of
           (Inl e, effs) \<Rightarrow> (Some (Inl e), effs)
         | (Inr ev, effs) \<Rightarrow>
             (case promise_any (pool_publish w (relays s) ev) sched of
                None \<Rightarrow> (None, effs @ map (\<lambda>r. RelayWrite r ev) (relays s))
              | Some (Fulfilled v) \<Rightarrow> (Some (Inr ev), effs @ map (\<lambda>r. RelayWrite r ev) (relays s))
              | Some (Rejected errs) \<Rightarrow>
                  (Some (Inl (AggregateError errs)), effs @ map (\<lambda>r. RelayWrite r ev) (relays s)))))"

text \<open>\<^verbatim>\<open>(old = []) => [newEvent, ...old]\<close> under the key of the notes query.\<close>

definition onSuccess :: "session \<Rightarrow> event \<Rightarrow> session" where
  "onSuccess s newEvent =
     s\<lparr>notes_data := (notes_data s)(relays s \<mapsto>
            newEvent # (case notes_data s (relays s) of None \<Rightarrow> [] | Some old \<Rightarrow> old)),
       postContent := [],
       attachments := []\<rparr>"

text \<open>\<^verbatim>\<open>publishMutation.mutate(postContent)\<close> with its two callbacks.\<close>

definition publish_mutate :: "world \<Rightarrow> session \<Rightarrow> nat list \<Rightarrow> session \<times> effect list" where
  "publish_mutate w s sched =
     (case mutationFn w s sched (postContent s) of
        (None, effs) \<Rightarrow> (s, effs)
      | (Some (Inr newEvent), effs) \<Rightarrow> (onSuccess s newEvent, effs)
      | (Some (Inl e), effs) \<Rightarrow> (s, effs @ [Alert e]))"

text \<open>
  The button that posts (App.tsx, lines 600-606). \<open>isPending\<close> is
  \<^verbatim>\<open>publishMutation.isPending\<close>. A click on a disabled button does nothing;
  this button is the only caller of \<^verbatim>\<open>mutate\<close>.
\<close>

definition post_button_disabled :: "world \<Rightarrow> session \<Rightarrow> bool \<Rightarrow> bool" where
  "post_button_disabled w s isPending \<longleftrightarrow>
     \<not> truthy (userPk s) \<or> isPending
     \<or> (js_trim w (postContent s) = [] \<and> length (attachments s) = 0)"

definition post_button_click ::
  "world \<Rightarrow> session \<Rightarrow> bool \<Rightarrow> nat list \<Rightarrow> session \<times> effect list" where
  "post_button_click w s isPending sched =
     (if post_button_disabled w s isPending then (s, []) else publish_mutate w s sched)"


section \<open>Profile metadata (App.tsx, lines 434-451)\<close>

definition current_notes :: "session \<Rightarrow> event list" where
  "current_notes s = (case notes_data s (relays s) of None \<Rightarrow> [] | Some ns \<Rightarrow> ns)"

definition authorPubkeys :: "session \<Rightarrow> string list" where
  "authorPubkeys s = set_to_array (map pubkey (current_notes s))"

text \<open>\<^verbatim>\<open>{ kinds: [0], authors: authorPubkeys }\<close>\<close>

definition metadata_filter :: "string list \<Rightarrow> filter_spec" where
  "metadata_filter as = \<lparr>kinds = [0], authors = Some as, limit = None\<rparr>"

text \<open>The body of \<^verbatim>\<open>events.forEach\<close>: the \<^verbatim>\<open>catch\<close> is empty.\<close>

definition put_metadata :: "world \<Rightarrow> (string \<rightharpoonup> jsval) \<Rightarrow> event \<Rightarrow> (string \<rightharpoonup> jsval)" where
  "put_metadata w m e =
     (case json_parse w (content e) of Some v \<Rightarrow> m(pubkey e \<mapsto> v) | None \<Rightarrow> m)"

definition metadata_queryFn ::
  "world \<Rightarrow> string list \<Rightarrow> string list \<Rightarrow> (string \<rightharpoonup> jsval) \<times> effect list" where
  "metadata_queryFn w rs as =
     (if length as = 0 then (Map.empty, [])
      else (foldl (put_metadata w) Map.empty (querySync w rs (metadata_filter as)),
            [RelayQuery rs (metadata_filter as)]))"

text \<open>\<^verbatim>\<open>staleTime: 600000\<close>\<close>

definition staleTime :: int where
  "staleTime = 600000"

text \<open>
  \<^verbatim>\<open>useQuery\<close> as it is configured here, when the component reads the
  metadata at the time \<open>date_now\<close>: a disabled query (\<^verbatim>\<open>enabled\<close> is
  false) fetches nothing; data under the same key that is younger than
  \<^verbatim>\<open>staleTime\<close> is served from the cache; otherwise
  \<^verbatim>\<open>queryFn\<close> runs and its result is stored under the key with the time.
  The result is the new state, the metadata the component sees
  (\<^verbatim>\<open>data: metadata = {}\<close>) and the calls made.
\<close>

definition metadata_fetch ::
  "world \<Rightarrow> session \<Rightarrow> session \<times> (string \<rightharpoonup> jsval) \<times> effect list" where
  "metadata_fetch w s =
     (case metadata_queryFn w (relays s) (authorPubkeys s) of
        (m, effs) \<Rightarrow>
          (s\<lparr>metadata_data := (metadata_data s)((authorPubkeys s, relays s) \<mapsto> (m, date_now w))\<rparr>,
           m, effs))"

definition metadata_useQuery ::
  "world \<Rightarrow> session \<Rightarrow> session \<times> (string \<rightharpoonup> jsval) \<times> effect list" where
  "metadata_useQuery w s =
     (case metadata_data s (authorPubkeys s, relays s) of
        None \<Rightarrow>
          (if length (authorPubkeys s) > 0 then metadata_fetch w s else (s, Map.empty, []))
      | Some (m, updatedAt) \<Rightarrow>
          (if length (authorPubkeys s) > 0 \<and> \<not> date_now w - updatedAt < staleTime
           then metadata_fetch w s
           else (s, m, [])))"


section \<open>Media upload (App.tsx, lines 453-497)\<close>

definition arrayBuffer :: "world \<Rightarrow> js_file \<Rightarrow> error + 8 word list" where
  "arrayBuffer w f = (case unreadable w f of Some e \<Rightarrow> Inl e | None \<Rightarrow> Inr (file_bytes f))"

definition upload_template :: "world \<Rightarrow> js_file \<Rightarrow> string \<Rightarrow> template" where
  "upload_template w f hash =
     \<lparr>kind = 24242,
      created_at = date_now w div 1000,
      tags = [[''t'', ''upload''], [''x'', hash]],
      content = ''Upload '' @ file_name f\<rparr>"

definition upload_request :: "js_file \<Rightarrow> string \<Rightarrow> request" where
  "upload_request f authHeader =
     \<lparr>req_url = BLOSSOM_SERVERS ! 0 @ ''/upload'',
      req_method = ''PUT'',
      req_headers = [(''Authorization'', ''Nostr '' @ authHeader)],
      req_body = f\<rparr>"

text \<open>From \<^verbatim>\<open>if (!response.ok)\<close> to \<^verbatim>\<open>data\<close>.\<close>

definition read_upload_response :: "response \<Rightarrow> error + jsval" where
  "read_upload_response r =
     (if \<not> resp_ok r then Inl (Error ''Upload failed'') else resp_json r)"

text \<open>The \<^verbatim>\<open>try\<close> block up to \<^verbatim>\<open>data\<close>: the parsed body, or
  what was thrown.\<close>

definition upload_try :: "world \<Rightarrow> session \<Rightarrow> js_file \<Rightarrow> (error + jsval) \<times> effect list" where
  "upload_try w s f =
     (case arrayBuffer w f of
        Inl e \<Rightarrow> (Inl e, [])
      | Inr buf \<Rightarrow>
          (case sha256_digest w buf of
             Inl e \<Rightarrow> (Inl e, [])
           | Inr sha256 \<Rightarrow>
               (case sign_event w (userSk s) ''Login to upload media''
                       (upload_template w f (bytesToHex sha256)) of
                  (Inl e, effs) \<Rightarrow> (Inl e, effs)
                | (Inr signedEvent, effs) \<Rightarrow>
                    (case btoa_stringify w signedEvent of
                       Inl e \<Rightarrow> (Inl e, effs)
                     | Inr authHeader \<Rightarrow>
                         (case fetch w (upload_request f authHeader) of
                            Inl e \<Rightarrow> (Inl e, effs @ [Fetch (upload_request f authHeader)])
                          | Inr r \<Rightarrow>
                              (read_upload_response r,
                               effs @ [Fetch (upload_request f authHeader)]))))))"

text \<open>
  The updater \<^verbatim>\<open>prev => [...prev, data.url]\<close>. \<^verbatim>\<open>data.url\<close> is read
  when React runs the updater, after the \<^verbatim>\<open>try\<close> has been left.
\<close>

definition append_url :: "jsval \<Rightarrow> jsval list \<Rightarrow> error + jsval list" where
  "append_url data prev =
     (case prop_url data of Inl e \<Rightarrow> Inl e | Inr url \<Rightarrow> Inr (prev @ [url]))"

text \<open>
  When the updater throws, the render that would apply the queued updates fails: the state
  is the last one committed, which has \<^verbatim>\<open>isUploading\<close> true since the start
  of the upload.
\<close>

definition uploadToBlossom :: "world \<Rightarrow> session \<Rightarrow> js_file \<Rightarrow> session \<times> effect list" where
  "uploadToBlossom w s f =
     (if \<not> truthy (userPk s) then (s, [])
      else
        (case upload_try w s f of
           (Inr data, effs) \<Rightarrow>
             (case append_url data (attachments s) of
                Inr next \<Rightarrow> (s\<lparr>attachments := next, isUploading := False\<rparr>, effs)
              | Inl err \<Rightarrow> (s\<lparr>isUploading := True\<rparr>, effs @ [Uncaught err]))
         | (Inl err, effs) \<Rightarrow> (s\<lparr>isUploading := False\<rparr>, effs @ [Alert err])))"


section \<open>Sample worlds, sessions and events\<close>

text \<open>
  A world in which nothing outside the program answers, the state of the component before
  anyone has logged in, and the pieces the closed examples below put into them.
\<close>

text \<open>\<^verbatim>\<open>trim\<close> on ASCII text: blanks are dropped at both ends.\<close>

definition ascii_trim :: "string \<Rightarrow> string" where
  "ascii_trim s =
     rev (dropWhile (\<lambda>c. c \<in> set [CHR '' '', CHR 0x09, CHR 0x0A, CHR 0x0B, CHR 0x0C, CHR 0x0D])
       (rev (dropWhile (\<lambda>c. c \<in> set [CHR '' '', CHR 0x09, CHR 0x0A, CHR 0x0B, CHR 0x0C, CHR 0x0D]) s)))"

text \<open>A pool that resolves a query once a relay has answered, and so never with no relay.\<close>

definition settles_with_a_relay :: "string list \<Rightarrow> filter_spec \<Rightarrow> bool" where
  "settles_with_a_relay rs f \<longleftrightarrow> rs \<noteq> []"

definition offline_world :: world where
  "offline_world =
     \<lparr>date_now = 0,
      parseInt16 = (\<lambda>s. 0),
      finalizeEvent = (\<lambda>t k. Inl (Error ''invalid key'')),
      window_nostr = None,
      querySync = (\<lambda>rs f. []),
      relay_publish = (\<lambda>i r e. Rejected ''offline''),
      json_parse = (\<lambda>s. None),
      unreadable = (\<lambda>f. None),
      sha256_digest = (\<lambda>b. Inl (Error ''digest failed'')),
      btoa_stringify = (\<lambda>e. Inl (Error ''invalid character'')),
      fetch = (\<lambda>r. Inl (Error ''network error'')),
      js_trim = ascii_trim,
      querySync_settles = (\<lambda>rs f. True)\<rparr>"

definition logged_out :: session where
  "logged_out =
     \<lparr>relays = [''wss://r1'', ''wss://r2''],
      userPk = None,
      userSk = None,
      postContent = ''hello'',
      attachments = [],
      isUploading = False,
      notes_data = Map.empty,
      metadata_data = Map.empty\<rparr>"

definition pool_returning :: "event list \<Rightarrow> string list \<Rightarrow> filter_spec \<Rightarrow> event list" where
  "pool_returning evs rs f = evs"

definition note_ev :: "string \<Rightarrow> string \<Rightarrow> int \<Rightarrow> event" where
  "note_ev i pk t =
     \<lparr>kind = 1, created_at = t, tags = [], content = [], ev_id = i, pubkey = pk, sig = []\<rparr>"

definition sample_finalize :: "template \<Rightarrow> 8 word list \<Rightarrow> error + event" where
  "sample_finalize t k =
     Inr \<lparr>kind = kind t, created_at = created_at t, tags = tags t, content = content t,
          ev_id = ''e1'', pubkey = ''pk1'', sig = ''s1''\<rparr>"

definition key_world :: world where
  "key_world = offline_world\<lparr>finalizeEvent := sample_finalize\<rparr>"

definition logged_in :: session where
  "logged_in = logged_out\<lparr>userPk := Some ''pk1'', userSk := Some ''0a''\<rparr>"

definition second_relay_acks :: "nat \<Rightarrow> string \<Rightarrow> event \<Rightarrow> (string, string) settled" where
  "second_relay_acks i r e = (if i = 1 then Fulfilled ''ok'' else Rejected ''timeout'')"

definition hello_event :: event where
  "hello_event =
     \<lparr>kind = 1, created_at = 0, tags = [], content = ''hello'',
      ev_id = ''e1'', pubkey = ''pk1'', sig = ''s1''\<rparr>"

definition pk_only :: session where
  "pk_only = logged_out\<lparr>userPk := Some ''pk1''\<rparr>"

definition sample_extension :: "template \<Rightarrow> error + event" where
  "sample_extension t =
     Inr \<lparr>kind = kind t, created_at = created_at t, tags = tags t, content = content t,
          ev_id = ''e2'', pubkey = ''pk1'', sig = ''s2''\<rparr>"

definition sample_file :: js_file where
  "sample_file = \<lparr>file_name = ''cat.png'', file_bytes = [0x89, 0x50]\<rparr>"

definition both_world :: world where
  "both_world = key_world\<lparr>window_nostr := Some sample_extension\<rparr>"

definition no_relays :: session where
  "no_relays = logged_in\<lparr>relays := []\<rparr>"

definition profile_ev :: "string \<Rightarrow> string \<Rightarrow> string \<Rightarrow> event" where
  "profile_ev i pk c =
     \<lparr>kind = 0, created_at = 0, tags = [], content = c, ev_id = i, pubkey = pk, sig = []\<rparr>"

text \<open>\<^verbatim>\<open>JSON.parse\<close> on the contents the examples use: \<open>''{}''\<close> is the
  empty object, \<open>''not json''\<close> does not parse.\<close>

definition parse_braces :: "string \<Rightarrow> jsval option" where
  "parse_braces s = (if s = ''{}'' then Some (JObj []) else None)"

definition profile_world :: world where
  "profile_world =
     offline_world\<lparr>date_now := 1000,
       json_parse := parse_braces,
       querySync := pool_returning [profile_ev ''e1'' ''A'' ''{}'', profile_ev ''e2'' ''A'' ''not json'',
                                    profile_ev ''e3'' ''B'' ''not json'']\<rparr>"

definition feed_of_two :: session where
  "feed_of_two =
     logged_out\<lparr>notes_data := [[''wss://r1'', ''wss://r2''] \<mapsto> [note_ev ''n1'' ''A'' 300, note_ev ''n2'' ''B'' 200]],
       metadata_data := [([''A''], [''wss://r1'', ''wss://r2'']) \<mapsto> ([''A'' \<mapsto> JObj []], 0)]\<rparr>"

definition fresh_for_two :: session where
  "fresh_for_two =
     feed_of_two\<lparr>metadata_data :=
       [([''A'', ''B''], [''wss://r1'', ''wss://r2'']) \<mapsto> ([''A'' \<mapsto> JObj []], 500)]\<rparr>"

definition sample_digest :: "8 word list \<Rightarrow> error + 8 word list" where
  "sample_digest b = Inr [0xAB, 0x01]"

definition sample_btoa :: "event \<Rightarrow> error + string" where
  "sample_btoa e = Inr ''eyJraW5kIjoyNDI0Mn0=''"

definition fetch_returning :: "response \<Rightarrow> request \<Rightarrow> error + response" where
  "fetch_returning r req = Inr r"

definition blossom_world :: "jsval \<Rightarrow> world" where
  "blossom_world data =
     key_world\<lparr>sha256_digest := sample_digest,
       btoa_stringify := sample_btoa,
       fetch := fetch_returning \<lparr>resp_ok = True, resp_json = Inr data\<rparr>\<rparr>"


definition stored_without_url :: jsval where
  "stored_without_url = JObj [(''message'', JStr ''stored'')]"

definition ext_blossom_world :: "jsval \<Rightarrow> world" where
  "ext_blossom_world data = (blossom_world data)\<lparr>window_nostr := Some sample_extension\<rparr>"

definition sample_request :: request where
  "sample_request =
     \<lparr>req_url = ''https://blossom.nostr.wine/upload'',
      req_method = ''PUT'',
      req_headers = [(''Authorization'', ''Nostr eyJraW5kIjoyNDI0Mn0='')],
      req_body = sample_file\<rparr>"


section \<open>Properties of the feed query\<close>

lemma insert_by_created_at:
  "insert_by by_created_at_desc x ys = insort_key (\<lambda>e. - created_at e) x ys"
  by (induction ys) (simp_all add: by_created_at_desc_def)

lemma js_sort_created_at:
  "js_sort by_created_at_desc xs = sort_key (\<lambda>e. - created_at e) xs"
  by (induction xs) (simp_all add: js_sort_def insert_by_created_at)

lemma sorted_neg_desc:
  "sorted (map (\<lambda>e. - created_at e) xs) = sorted_wrt (\<lambda>a b. created_at b \<le> created_at a) xs"
  by (induction xs) auto

lemma js_sort_desc:
  "sorted_wrt (\<lambda>a b. created_at b \<le> created_at a) (js_sort by_created_at_desc xs)"
  unfolding js_sort_created_at sorted_neg_desc [symmetric]
  by (rule sorted_sort_key)

lemma js_sort_mset: "mset (js_sort by_created_at_desc xs) = mset xs"
  by (simp add: js_sort_created_at)

lemma js_sort_stable:
  "filter (\<lambda>e. created_at e = t) (js_sort by_created_at_desc xs)
     = filter (\<lambda>e. created_at e = t) xs"
proof -
  have "filter (\<lambda>e. - created_at e = - t) (sort_key (\<lambda>e. - created_at e) xs)
          = filter (\<lambda>e. - created_at e = - t) xs"
    by (rule sort_key_stable)
  then show ?thesis
    by (simp add: js_sort_created_at)
qed

lemma js_sort_distinct_ids:
  "distinct (map ev_id (js_sort by_created_at_desc xs)) = distinct (map ev_id xs)"
proof -
  have "mset (map ev_id (js_sort by_created_at_desc xs)) = mset (map ev_id xs)"
    by (simp add: js_sort_mset)
  then show ?thesis
    by (rule mset_eq_imp_distinct_iff)
qed

text \<open>
  C2, as the code has it. The feed is the pool's result sorted by
  \<^verbatim>\<open>created_at\<close> descending with a stable sort: it holds the same events
  (so a result that is deduplicated by id stays so), no event is followed by a newer one,
  and events with equal \<^verbatim>\<open>created_at\<close> keep the order in which the pool
  returned them. There is no tie-break on the id.
\<close>

theorem notes_queryFn_sorted_stable:
  "mset (notes_queryFn w rs) = mset (querySync w rs notes_filter)
   \<and> distinct (map ev_id (notes_queryFn w rs))
       = distinct (map ev_id (querySync w rs notes_filter))
   \<and> sorted_wrt (\<lambda>a b. created_at b \<le> created_at a) (notes_queryFn w rs)
   \<and> (\<forall>t. filter (\<lambda>e. created_at e = t) (notes_queryFn w rs)
            = filter (\<lambda>e. created_at e = t) (querySync w rs notes_filter))"
  unfolding notes_queryFn_def
  using js_sort_mset js_sort_distinct_ids js_sort_desc js_sort_stable
  by blast

text \<open>
  C2, as the specification states it, fails. Two events with the same
  \<^verbatim>\<open>created_at\<close> and the ids \<open>''a''\<close> and \<open>''b''\<close> come out in the order in
  which the pool returned them, so the same set of events gives two different feeds, and the
  first is not the order of the specification.
\<close>

theorem notes_queryFn_tie_counterexample:
  "notes_queryFn
     (offline_world\<lparr>querySync := pool_returning [note_ev ''b'' ''p'' 300, note_ev ''a'' ''p'' 300]\<rparr>)
     [''wss://r1'', ''wss://r2'']
     = [note_ev ''b'' ''p'' 300, note_ev ''a'' ''p'' 300]
   \<and> notes_queryFn
     (offline_world\<lparr>querySync := pool_returning [note_ev ''a'' ''p'' 300, note_ev ''b'' ''p'' 300]\<rparr>)
     [''wss://r1'', ''wss://r2'']
     = [note_ev ''a'' ''p'' 300, note_ev ''b'' ''p'' 300]
   \<and> spec_feed_order [note_ev ''b'' ''p'' 300, note_ev ''a'' ''p'' 300]
     = [note_ev ''a'' ''p'' 300, note_ev ''b'' ''p'' 300]"
  by (simp add: notes_queryFn_def spec_feed_order_def js_sort_def by_created_at_desc_def
      by_created_at_desc_then_id_def note_ev_def pool_returning_def)

section \<open>Properties of \<^verbatim>\<open>Promise.any\<close> and of publishing\<close>


lemma any_run_Nil: "any_run outs [] = any_init (length outs)"
  by (simp add: any_run_def)

lemma any_run_snoc:
  "any_run outs (sched @ [i]) =
     (if i < length outs then any_step (any_run outs sched) (i, outs ! i) else any_run outs sched)"
  by (simp add: any_run_def)

lemma errors_any_step:
  "errors (any_step s (i, out)) =
     (case out of Rejected e \<Rightarrow> (errors s)[i := Some e] | Fulfilled v \<Rightarrow> errors s)"
  by (cases out) (simp_all add: Let_def split: option.splits)

lemma errors_any_run:
  "errors (any_run outs sched) =
     map (\<lambda>j. if j \<in> set sched then rejection (outs ! j) else None) [0..<length outs]"
proof (induction sched rule: rev_induct)
  case Nil
  show ?case
    by (simp add: any_run_Nil any_init_def map_replicate_const)
next
  case (snoc i sched)
  show ?case
  proof (cases "i < length outs")
    case False
    then have "\<And>j. j < length outs \<Longrightarrow> (j \<in> set (sched @ [i])) = (j \<in> set sched)"
      by auto
    with False snoc show ?thesis
      by (simp add: any_run_snoc cong: map_cong)
  next
    case True
    show ?thesis
    proof (cases "outs ! i")
      case (Fulfilled v)
      with True snoc show ?thesis
        by (auto simp: any_run_snoc errors_any_step nth_list_update simp del: any_step.simps intro!: nth_equalityI)
    next
      case (Rejected e)
      with True snoc show ?thesis
        by (auto simp: any_run_snoc errors_any_step nth_list_update simp del: any_step.simps intro!: nth_equalityI)
    qed
  qed
qed


lemma find_snoc:
  "List.find P (xs @ [x]) =
     (case List.find P xs of Some y \<Rightarrow> Some y | None \<Rightarrow> if P x then Some x else None)"
  by (induction xs) simp_all

lemma outcome_any_step_fulfilled:
  "outcome (any_step s (i, Fulfilled v)) =
     (case outcome s of None \<Rightarrow> Some (Fulfilled v) | Some r \<Rightarrow> Some r)"
  by (simp split: option.splits)

lemma outcome_any_step_rejected:
  "outcome (any_step s (i, Rejected e)) =
     (case outcome s of
        None \<Rightarrow>
          if list_all (\<lambda>x. x \<noteq> None) (errors (any_step s (i, Rejected e)))
          then Some (Rejected (errors (any_step s (i, Rejected e))))
          else None
      | Some r \<Rightarrow> Some r)"
  by (simp add: Let_def split: option.splits)

lemma errors_all_rejected:
  assumes "\<forall>j\<in>set sched. j < length outs \<longrightarrow> rejection (outs ! j) \<noteq> None"
  shows "list_all (\<lambda>x. x \<noteq> None)
           (map (\<lambda>j. if j \<in> set sched then rejection (outs ! j) else None) [0..<length outs])
         = (\<forall>j<length outs. j \<in> set sched)"
  using assms by (auto simp: list_all_iff)

lemma errors_all_settled:
  assumes "\<forall>j<length outs. j \<in> set sched"
  shows "map (\<lambda>j. if j \<in> set sched then rejection (outs ! j) else None) [0..<length outs]
         = map rejection outs"
  using assms by (auto intro!: nth_equalityI)

lemma outcome_any_run:
  "outcome (any_run outs sched) =
     (case List.find (\<lambda>i. i < length outs \<and> rejection (outs ! i) = None) sched of
        Some i \<Rightarrow> (case outs ! i of Fulfilled v \<Rightarrow> Some (Fulfilled v) | Rejected e \<Rightarrow> None)
      | None \<Rightarrow>
          if \<forall>j<length outs. j \<in> set sched then Some (Rejected (map rejection outs)) else None)"
  (is "_ = ?char sched")
proof (induction sched rule: rev_induct)
  case Nil
  show ?case
    by (cases outs) (auto simp: any_run_Nil any_init_def)
next
  case (snoc i sched)
  let ?P = "\<lambda>i. i < length outs \<and> rejection (outs ! i) = None"
  show ?case
  proof (cases "i < length outs")
    case False
    then have "(\<forall>j<length outs. j \<in> set (sched @ [i])) = (\<forall>j<length outs. j \<in> set sched)"
      by auto
    with False snoc show ?thesis
      by (simp add: any_run_snoc find_snoc split: option.splits)
  next
    case True
    show ?thesis
    proof (cases "List.find ?P sched")
      case (Some k)
      then have "?P k"
        by (auto simp: find_Some_iff)
      then obtain v where k: "outs ! k = Fulfilled v"
        by (cases "outs ! k") auto
      from Some k snoc have "outcome (any_run outs sched) = Some (Fulfilled v)"
        by simp
      with True Some k show ?thesis
        by (cases "outs ! i")
          (simp_all add: any_run_snoc find_snoc outcome_any_step_fulfilled
            outcome_any_step_rejected del: any_step.simps)
    next
      case None
      then have rej: "\<forall>j\<in>set sched. j < length outs \<longrightarrow> rejection (outs ! j) \<noteq> None"
        by (auto simp: find_None_iff)
      show ?thesis
      proof (cases "outs ! i")
        case (Fulfilled v)
        with rej True have "i \<notin> set sched"
          by auto
        with True have "\<not> (\<forall>j<length outs. j \<in> set sched)"
          by auto
        with None snoc have "outcome (any_run outs sched) = None"
          by simp
        with True None Fulfilled show ?thesis
          by (simp add: any_run_snoc find_snoc outcome_any_step_fulfilled del: any_step.simps)
      next
        case (Rejected e)
        with rej have rej': "\<forall>j\<in>set (sched @ [i]). j < length outs \<longrightarrow> rejection (outs ! j) \<noteq> None"
          by auto
        from Rejected True have step: "any_step (any_run outs sched) (i, Rejected e) = any_run outs (sched @ [i])"
          by (simp add: any_run_snoc)
        from Rejected have find': "List.find ?P (sched @ [i]) = None"
          using None by (simp add: find_snoc)
        show ?thesis
        proof (cases "\<forall>j<length outs. j \<in> set sched")
          case all: True
          with None snoc have "outcome (any_run outs sched) = Some (Rejected (map rejection outs))"
            by simp
          moreover from all have "\<forall>j<length outs. j \<in> set (sched @ [i])"
            by auto
          ultimately show ?thesis
            using find' True Rejected
            by (simp add: any_run_snoc outcome_any_step_rejected del: any_step.simps)
        next
          case notall: False
          with None snoc have prev: "outcome (any_run outs sched) = None"
            by simp
          have "outcome (any_run outs (sched @ [i])) =
                  (if list_all (\<lambda>x. x \<noteq> None) (errors (any_run outs (sched @ [i])))
                   then Some (Rejected (errors (any_run outs (sched @ [i])))) else None)"
            using outcome_any_step_rejected [of "any_run outs sched" i e] prev
            unfolding step by simp
          also have "\<dots> = (if \<forall>j<length outs. j \<in> set (sched @ [i])
                            then Some (Rejected (map rejection outs)) else None)"
            unfolding errors_any_run errors_all_rejected [OF rej']
            using errors_all_settled [of outs "sched @ [i]"] by simp
          finally show ?thesis
            using find' by simp
        qed
      qed
    qed
  qed
qed


lemma find_first:
  "\<forall>x\<in>set xs. \<not> P x \<Longrightarrow> P y \<Longrightarrow> List.find P (xs @ y # ys) = Some y"
  by (induction xs) simp_all

lemma promise_any_first_ack:
  assumes "i < length outs" and "outs ! i = Fulfilled v"
    and "\<forall>j\<in>set pre. j < length outs \<longrightarrow> rejection (outs ! j) \<noteq> None"
  shows "promise_any outs (pre @ i # post) = Some (Fulfilled v)"
proof -
  have "List.find (\<lambda>i. i < length outs \<and> rejection (outs ! i) = None) (pre @ i # post) = Some i"
    using assms by (intro find_first) auto
  with assms(2) show ?thesis
    by (simp add: promise_any_def outcome_any_run)
qed

lemma promise_any_rejected_iff:
  "promise_any outs sched = Some (Rejected errs) \<longleftrightarrow>
     (\<forall>j<length outs. j \<in> set sched \<and> rejection (outs ! j) \<noteq> None) \<and> errs = map rejection outs"
proof (cases "List.find (\<lambda>i. i < length outs \<and> rejection (outs ! i) = None) sched")
  case None
  then have "\<forall>j\<in>set sched. j < length outs \<longrightarrow> rejection (outs ! j) \<noteq> None"
    by (auto simp: find_None_iff)
  then have "(\<forall>j<length outs. j \<in> set sched \<and> rejection (outs ! j) \<noteq> None)
               = (\<forall>j<length outs. j \<in> set sched)"
    by auto
  with None show ?thesis
    by (auto simp: promise_any_def outcome_any_run)
next
  case (Some k)
  then have k: "k \<in> set sched" "k < length outs" "rejection (outs ! k) = None"
    by (auto simp: find_Some_iff)
  then obtain v where "outs ! k = Fulfilled v"
    by (cases "outs ! k") auto
  with Some k show ?thesis
    by (auto simp: promise_any_def outcome_any_run)
qed

lemma length_pool_publish: "length (pool_publish w rs ev) = length rs"
  by (simp add: pool_publish_def)

lemma nth_pool_publish:
  "j < length rs \<Longrightarrow> pool_publish w rs ev ! j = relay_publish w j (rs ! j) ev"
  by (simp add: pool_publish_def nth_enumerate_eq)

lemma rejections_pool_publish:
  "map rejection (pool_publish w rs ev)
     = map (\<lambda>j. rejection (relay_publish w j (rs ! j) ev)) [0..<length rs]"
  by (rule nth_equalityI) (simp_all add: length_pool_publish nth_pool_publish)

lemma mutationFn_signed:
  assumes "truthy (userPk s)"
    and "fst (sign_event w (userSk s) ''No signing method available'' (note_template w s c)) = Inr ev"
  shows "fst (mutationFn w s sched c) =
     (case promise_any (pool_publish w (relays s) ev) sched of
        None \<Rightarrow> None
      | Some (Fulfilled v) \<Rightarrow> Some (Inr ev)
      | Some (Rejected errs) \<Rightarrow> Some (Inl (AggregateError errs)))"
  using assms
  by (cases "sign_event w (userSk s) ''No signing method available'' (note_template w s c)")
    (simp add: mutationFn_def split: option.splits settled.splits)

lemma promise_any_pending_iff:
  "promise_any outs sched = None \<longleftrightarrow>
     (\<forall>i\<in>set sched. i < length outs \<longrightarrow> rejection (outs ! i) \<noteq> None)
     \<and> (\<exists>j<length outs. j \<notin> set sched)"
proof (cases "List.find (\<lambda>i. i < length outs \<and> rejection (outs ! i) = None) sched")
  case None
  then have "\<forall>i\<in>set sched. i < length outs \<longrightarrow> rejection (outs ! i) \<noteq> None"
    by (auto simp: find_None_iff)
  with None show ?thesis
    by (auto simp: promise_any_def outcome_any_run)
next
  case (Some k)
  then have k: "k \<in> set sched" "k < length outs" "rejection (outs ! k) = None"
    by (auto simp: find_Some_iff)
  then obtain v where "outs ! k = Fulfilled v"
    by (cases "outs ! k") auto
  with Some k show ?thesis
    by (auto simp: promise_any_def outcome_any_run)
qed

lemma promise_any_fulfilled_iff:
  "(\<exists>v. promise_any outs sched = Some (Fulfilled v)) \<longleftrightarrow>
     (\<exists>i\<in>set sched. i < length outs \<and> rejection (outs ! i) = None)"
proof (cases "List.find (\<lambda>i. i < length outs \<and> rejection (outs ! i) = None) sched")
  case None
  then have "\<forall>i\<in>set sched. i < length outs \<longrightarrow> rejection (outs ! i) \<noteq> None"
    by (auto simp: find_None_iff)
  with None show ?thesis
    by (auto simp: promise_any_def outcome_any_run)
next
  case (Some k)
  then have k: "k \<in> set sched" "k < length outs" "rejection (outs ! k) = None"
    by (auto simp: find_Some_iff)
  then obtain v where "outs ! k = Fulfilled v"
    by (cases "outs ! k") auto
  with Some k show ?thesis
    by (auto simp: promise_any_def outcome_any_run)
qed

lemma mutationFn_signed_effects:
  assumes "truthy (userPk s)"
    and "fst (sign_event w (userSk s) ''No signing method available'' (note_template w s c)) = Inr ev"
  shows "snd (mutationFn w s sched c) =
     snd (sign_event w (userSk s) ''No signing method available'' (note_template w s c))
       @ map (\<lambda>r. RelayWrite r ev) (relays s)"
  using assms
  by (cases "sign_event w (userSk s) ''No signing method available'' (note_template w s c)")
    (simp add: mutationFn_def split: option.splits settled.splits)

lemma mutationFn_first_ack:
  assumes "truthy (userPk s)"
    and "fst (sign_event w (userSk s) ''No signing method available'' (note_template w s c)) = Inr ev"
    and "i < length (relays s)" and "relay_publish w i (relays s ! i) ev = Fulfilled v"
    and "\<forall>j\<in>set pre. j < length (relays s)
            \<longrightarrow> rejection (relay_publish w j (relays s ! j) ev) \<noteq> None"
  shows "fst (mutationFn w s (pre @ i # post) c) = Some (Inr ev)"
proof -
  have "promise_any (pool_publish w (relays s) ev) (pre @ i # post) = Some (Fulfilled v)"
    using assms(3-5)
    by (intro promise_any_first_ack) (simp_all add: length_pool_publish nth_pool_publish)
  then show ?thesis
    by (simp add: mutationFn_signed [OF assms(1,2)])
qed

lemma mutationFn_fails_iff:
  assumes "truthy (userPk s)"
    and "fst (sign_event w (userSk s) ''No signing method available'' (note_template w s c)) = Inr ev"
  shows "fst (mutationFn w s sched c) = Some (Inl err) \<longleftrightarrow>
            (\<forall>j<length (relays s).
                j \<in> set sched \<and> rejection (relay_publish w j (relays s ! j) ev) \<noteq> None)
            \<and> err = AggregateError
                      (map (\<lambda>j. rejection (relay_publish w j (relays s ! j) ev))
                         [0..<length (relays s)])"
proof -
  have "fst (mutationFn w s sched c) = Some (Inl err) \<longleftrightarrow>
          (\<exists>errs. promise_any (pool_publish w (relays s) ev) sched = Some (Rejected errs)
                 \<and> err = AggregateError errs)"
    by (auto simp: mutationFn_signed [OF assms] split: option.splits settled.splits)
  also have "\<dots> \<longleftrightarrow>
          (\<forall>j<length (relays s).
                j \<in> set sched \<and> rejection (relay_publish w j (relays s ! j) ev) \<noteq> None)
          \<and> err = AggregateError
                    (map (\<lambda>j. rejection (relay_publish w j (relays s ! j) ev))
                       [0..<length (relays s)])"
    by (auto simp: promise_any_rejected_iff length_pool_publish nth_pool_publish
        rejections_pool_publish)
  finally show ?thesis .
qed

lemma mutationFn_pending_iff:
  assumes "truthy (userPk s)"
    and "fst (sign_event w (userSk s) ''No signing method available'' (note_template w s c)) = Inr ev"
  shows "fst (mutationFn w s sched c) = None \<longleftrightarrow>
            (\<forall>i\<in>set sched. i < length (relays s)
                \<longrightarrow> rejection (relay_publish w i (relays s ! i) ev) \<noteq> None)
            \<and> (\<exists>j<length (relays s). j \<notin> set sched)"
proof -
  have "fst (mutationFn w s sched c) = None \<longleftrightarrow>
          promise_any (pool_publish w (relays s) ev) sched = None"
    by (auto simp: mutationFn_signed [OF assms] split: option.splits settled.splits)
  also have "\<dots> \<longleftrightarrow>
            (\<forall>i\<in>set sched. i < length (relays s)
                \<longrightarrow> rejection (relay_publish w i (relays s ! i) ev) \<noteq> None)
            \<and> (\<exists>j<length (relays s). j \<notin> set sched)"
    by (auto simp: promise_any_pending_iff length_pool_publish nth_pool_publish)
  finally show ?thesis .
qed

lemma mutationFn_returns_iff:
  assumes "truthy (userPk s)"
    and "fst (sign_event w (userSk s) ''No signing method available'' (note_template w s c)) = Inr ev"
  shows "fst (mutationFn w s sched c) = Some (Inr ev') \<longleftrightarrow>
            ev' = ev
            \<and> (\<exists>i\<in>set sched. i < length (relays s)
                  \<and> rejection (relay_publish w i (relays s ! i) ev) = None)"
proof -
  have "fst (mutationFn w s sched c) = Some (Inr ev') \<longleftrightarrow>
          ev' = ev \<and> (\<exists>v. promise_any (pool_publish w (relays s) ev) sched = Some (Fulfilled v))"
    by (auto simp: mutationFn_signed [OF assms] split: option.splits settled.splits)
  also have "\<dots> \<longleftrightarrow>
            ev' = ev
            \<and> (\<exists>i\<in>set sched. i < length (relays s)
                  \<and> rejection (relay_publish w i (relays s ! i) ev) = None)"
    by (auto simp: promise_any_fulfilled_iff length_pool_publish nth_pool_publish)
  finally show ?thesis .
qed

text \<open>
  C1. Once the user is logged in and the note is signed, \<^verbatim>\<open>mutationFn\<close> has
  written the event to every relay of the list, one write each, and
  \<^item> it is still awaiting exactly while no settled write is an acknowledgement and some
    write has not settled;
  \<^item> it returns the event exactly when a settled write is an acknowledgement: after the
    writes \<open>pre\<close>, all rejected, and the acknowledged write \<open>i\<close>, it has returned,
    with the other writes still in flight, and whatever settles later (\<open>post\<close>) does
    not change that;
  \<^item> it throws exactly when every relay's write has settled with a rejection, and what it
    throws is the \<^verbatim>\<open>AggregateError\<close> whose \<^verbatim>\<open>errors\<close> hold the
    cause of each relay, one per relay and in the order of the relays.
\<close>

theorem publish_first_ack_or_all_failed:
  assumes "truthy (userPk s)"
    and "fst (sign_event w (userSk s) ''No signing method available'' (note_template w s c)) = Inr ev"
  shows "(i < length (relays s) \<and> relay_publish w i (relays s ! i) ev = Fulfilled v
          \<and> (\<forall>j\<in>set pre. j < length (relays s)
                \<longrightarrow> rejection (relay_publish w j (relays s ! j) ev) \<noteq> None)
          \<longrightarrow> fst (mutationFn w s pre c) = None
              \<and> fst (mutationFn w s (pre @ [i]) c) = Some (Inr ev)
              \<and> fst (mutationFn w s (pre @ i # post) c) = Some (Inr ev))
       \<and> (fst (mutationFn w s sched c) = Some (Inl err) \<longleftrightarrow>
            (\<forall>j<length (relays s).
                j \<in> set sched \<and> rejection (relay_publish w j (relays s ! j) ev) \<noteq> None)
            \<and> err = AggregateError
                      (map (\<lambda>j. rejection (relay_publish w j (relays s ! j) ev))
                         [0..<length (relays s)]))
       \<and> (fst (mutationFn w s sched c) = None \<longleftrightarrow>
            (\<forall>i\<in>set sched. i < length (relays s)
                \<longrightarrow> rejection (relay_publish w i (relays s ! i) ev) \<noteq> None)
            \<and> (\<exists>j<length (relays s). j \<notin> set sched))
       \<and> (fst (mutationFn w s sched c) = Some (Inr ev') \<longleftrightarrow>
            ev' = ev
            \<and> (\<exists>i\<in>set sched. i < length (relays s)
                  \<and> rejection (relay_publish w i (relays s ! i) ev) = None))
       \<and> snd (mutationFn w s sched c) =
            snd (sign_event w (userSk s) ''No signing method available'' (note_template w s c))
              @ map (\<lambda>r. RelayWrite r ev) (relays s)"
proof (intro conjI impI)
  assume a: "i < length (relays s) \<and> relay_publish w i (relays s ! i) ev = Fulfilled v
          \<and> (\<forall>j\<in>set pre. j < length (relays s)
                \<longrightarrow> rejection (relay_publish w j (relays s ! j) ev) \<noteq> None)"
  then have "i \<notin> set pre"
    by auto
  with a show "fst (mutationFn w s pre c) = None"
    unfolding mutationFn_pending_iff [OF assms] by blast
  from a show "fst (mutationFn w s (pre @ [i]) c) = Some (Inr ev)"
    and "fst (mutationFn w s (pre @ i # post) c) = Some (Inr ev)"
    using mutationFn_first_ack [OF assms] by blast+
next
  show "fst (mutationFn w s sched c) = Some (Inl err) \<longleftrightarrow>
            (\<forall>j<length (relays s).
                j \<in> set sched \<and> rejection (relay_publish w j (relays s ! j) ev) \<noteq> None)
            \<and> err = AggregateError
                      (map (\<lambda>j. rejection (relay_publish w j (relays s ! j) ev))
                         [0..<length (relays s)])"
    by (rule mutationFn_fails_iff [OF assms])
next
  show "fst (mutationFn w s sched c) = None \<longleftrightarrow>
            (\<forall>i\<in>set sched. i < length (relays s)
                \<longrightarrow> rejection (relay_publish w i (relays s ! i) ev) \<noteq> None)
            \<and> (\<exists>j<length (relays s). j \<notin> set sched)"
    by (rule mutationFn_pending_iff [OF assms])
next
  show "fst (mutationFn w s sched c) = Some (Inr ev') \<longleftrightarrow>
            ev' = ev
            \<and> (\<exists>i\<in>set sched. i < length (relays s)
                  \<and> rejection (relay_publish w i (relays s ! i) ev) = None)"
    by (rule mutationFn_returns_iff [OF assms])
next
  show "snd (mutationFn w s sched c) =
            snd (sign_event w (userSk s) ''No signing method available'' (note_template w s c))
              @ map (\<lambda>r. RelayWrite r ev) (relays s)"
    by (rule mutationFn_signed_effects [OF assms])
qed

lemma sign_hello:
  "fst (sign_event (key_world\<lparr>relay_publish := rp\<rparr>) (userSk logged_in)
          ''No signing method available''
          (note_template (key_world\<lparr>relay_publish := rp\<rparr>) logged_in ''hello'')) = Inr hello_event"
  by (simp add: key_world_def offline_world_def logged_in_def logged_out_def note_template_def
      sample_finalize_def hello_event_def)

theorem publish_first_ack_or_all_failed_witness:
  "truthy (userPk logged_in)
   \<and> fst (mutationFn (key_world\<lparr>relay_publish := second_relay_acks\<rparr>) logged_in [] ''hello'') = None
   \<and> fst (mutationFn (key_world\<lparr>relay_publish := second_relay_acks\<rparr>) logged_in [0] ''hello'') = None
   \<and> fst (mutationFn (key_world\<lparr>relay_publish := second_relay_acks\<rparr>) logged_in [0, 1] ''hello'')
     = Some (Inr hello_event)
   \<and> fst (mutationFn (key_world\<lparr>relay_publish := second_relay_acks\<rparr>) logged_in [0, 1, 0] ''hello'')
     = Some (Inr hello_event)
   \<and> fst (mutationFn (key_world\<lparr>relay_publish := second_relay_acks\<rparr>) logged_in [1] ''hello'')
     = Some (Inr hello_event)
   \<and> fst (mutationFn key_world logged_in [1] ''hello'') = None
   \<and> fst (mutationFn key_world logged_in [1, 0] ''hello'')
     = Some (Inl (AggregateError [Some ''offline'', Some ''offline'']))
   \<and> snd (mutationFn key_world logged_in [1, 0] ''hello'')
     = [LocalSign (note_template key_world logged_in ''hello'') ''0a'',
        RelayWrite ''wss://r1'' hello_event, RelayWrite ''wss://r2'' hello_event]"
proof -
  let ?a = "key_world\<lparr>relay_publish := second_relay_acks\<rparr>"
  have pk: "truthy (userPk logged_in)"
    by (simp add: logged_in_def logged_out_def)
  have rs: "relays logged_in = [''wss://r1'', ''wss://r2'']"
    by (simp add: logged_in_def logged_out_def)
  have s2: "fst (sign_event key_world (userSk logged_in) ''No signing method available''
          (note_template key_world logged_in ''hello'')) = Inr hello_event"
    using sign_hello [of "relay_publish key_world"] by simp
  have eff: "snd (sign_event key_world (userSk logged_in) ''No signing method available''
          (note_template key_world logged_in ''hello''))
        = [LocalSign (note_template key_world logged_in ''hello'') ''0a'']"
    by (simp add: logged_in_def logged_out_def)
  have rp: "relay_publish key_world = (\<lambda>i r e. Rejected ''offline'')"
    by (simp add: key_world_def offline_world_def)
  have ack: "fst (mutationFn ?a logged_in [0] ''hello'') = None"
    "fst (mutationFn ?a logged_in [0, 1] ''hello'') = Some (Inr hello_event)"
    "fst (mutationFn ?a logged_in [0, 1, 0] ''hello'') = Some (Inr hello_event)"
    using publish_first_ack_or_all_failed [OF pk sign_hello [of second_relay_acks],
        where i = 1 and v = "''ok''" and pre = "[0]" and post = "[0]" and sched = "[]"
          and err = TypeError and ev' = hello_event]
    by (simp_all add: rs second_relay_acks_def)
  have start: "fst (mutationFn ?a logged_in [] ''hello'') = None"
    "fst (mutationFn ?a logged_in [1] ''hello'') = Some (Inr hello_event)"
    using publish_first_ack_or_all_failed [OF pk sign_hello [of second_relay_acks],
        where i = 1 and v = "''ok''" and pre = "[]" and post = "[]" and sched = "[]"
          and err = TypeError and ev' = hello_event]
    by (simp_all add: rs second_relay_acks_def)
  have one: "fst (mutationFn key_world logged_in [1] ''hello'') = None"
    using publish_first_ack_or_all_failed [OF pk s2,
        where i = 1 and v = "''ok''" and pre = "[]" and post = "[]" and sched = "[1]"
          and err = TypeError and ev' = hello_event]
    by (auto simp: rs rp intro: exI [of _ 0])
  have all: "fst (mutationFn key_world logged_in [1, 0] ''hello'')
       = Some (Inl (AggregateError [Some ''offline'', Some ''offline'']))"
    "snd (mutationFn key_world logged_in [1, 0] ''hello'')
       = [LocalSign (note_template key_world logged_in ''hello'') ''0a'',
          RelayWrite ''wss://r1'' hello_event, RelayWrite ''wss://r2'' hello_event]"
    using publish_first_ack_or_all_failed [OF pk s2,
        where i = 1 and v = "''ok''" and pre = "[]" and post = "[]" and sched = "[1, 0]"
          and err = "AggregateError [Some ''offline'', Some ''offline'']" and ev' = hello_event]
    by (simp_all add: rs rp eff upt_rec less_Suc_eq)
  from pk start ack one all show ?thesis
    by (intro conjI)
qed


section \<open>Properties of signing and of the publish mutation\<close>

lemma sign_event_no_signer:
  "\<not> truthy sk \<Longrightarrow> window_nostr w = None \<Longrightarrow> sign_event w sk msg t = (Inl (Error msg), [])"
  by (cases sk) (simp_all add: sign_with_extension_def)

lemma sign_event_effects:
  "snd (sign_event w sk msg t) =
     (if truthy sk then [LocalSign t (the sk)]
      else if window_nostr w = None then [] else [ExtensionSign t])"
  by (cases sk) (auto simp: sign_with_extension_def split: option.splits)


lemma mutationFn_no_signer:
  "\<not> truthy (userSk s) \<Longrightarrow> window_nostr w = None \<Longrightarrow>
     mutationFn w s sched c =
       (Some (Inl (Error (if truthy (userPk s) then ''No signing method available''
                          else ''Not logged in''))), [])"
  by (simp add: mutationFn_def sign_event_no_signer)

text \<open>
  C3. With no secret key and no extension, \<^verbatim>\<open>mutationFn\<close> of a user who has a
  public key throws \<^verbatim>\<open>"No signing method available"\<close> at once, whatever the
  relays would do, and makes no call at all: no signer is asked and no relay is written
  to. The button that posts is disabled while there is no public key, so a click either
  does nothing or ends in the alert of that error, with the state as it was.
\<close>

theorem publish_without_signer:
  assumes "\<not> truthy (userSk s)" and "window_nostr w = None"
  shows "(truthy (userPk s)
          \<longrightarrow> mutationFn w s sched c = (Some (Inl (Error ''No signing method available'')), []))
     \<and> post_button_click w s isPending sched =
         (if \<not> truthy (userPk s) \<or> isPending
             \<or> (js_trim w (postContent s) = [] \<and> attachments s = [])
          then (s, [])
          else (s, [Alert (Error ''No signing method available'')]))"
  using assms
  by (auto simp: mutationFn_no_signer post_button_click_def post_button_disabled_def
      publish_mutate_def)

theorem publish_without_signer_witness:
  "\<not> truthy (userSk pk_only) \<and> window_nostr offline_world = None \<and> truthy (userPk pk_only)
   \<and> mutationFn offline_world pk_only [0, 1] ''hello''
       = (Some (Inl (Error ''No signing method available'')), [])
   \<and> post_button_click offline_world pk_only False [0, 1]
       = (pk_only, [Alert (Error ''No signing method available'')])
   \<and> post_button_click offline_world logged_out False [0, 1] = (logged_out, [])"
proof -
  have a: "\<not> truthy (userSk pk_only)" "\<not> truthy (userSk logged_out)"
    by (simp_all add: pk_only_def logged_out_def)
  have b: "window_nostr offline_world = None"
    by (simp add: offline_world_def)
  have c: "truthy (userPk pk_only)" "\<not> truthy (userPk logged_out)"
    by (simp_all add: pk_only_def logged_out_def)
  have t: "js_trim offline_world (postContent pk_only) = ''hello''"
    by (simp add: offline_world_def pk_only_def logged_out_def ascii_trim_def)
  show ?thesis
    using publish_without_signer [OF a(1) b, of "[0, 1]" "''hello''" False]
      publish_without_signer [OF a(2) b, of "[0, 1]" "''hello''" False] a b c t
    by simp
qed

text \<open>
  C10. With a secret key in the session, signing is \<^verbatim>\<open>finalizeEvent\<close> with
  that key, whether or not there is an extension, and neither publishing a note nor
  uploading a file asks the extension to sign anything.
\<close>

theorem local_key_takes_precedence:
  assumes "userSk s = Some sk" and "sk \<noteq> []"
  shows "sign_event w (userSk s) msg t = (finalizeEvent w t (hexToBytes w sk), [LocalSign t sk])
     \<and> (\<forall>t'. ExtensionSign t' \<notin> set (snd (mutationFn w s sched c)))
     \<and> (\<forall>t'. ExtensionSign t' \<notin> set (snd (uploadToBlossom w s f)))"
proof (intro conjI allI)
  show "sign_event w (userSk s) msg t = (finalizeEvent w t (hexToBytes w sk), [LocalSign t sk])"
    using assms by simp
next
  fix t'
  show "ExtensionSign t' \<notin> set (snd (mutationFn w s sched c))"
    using assms
    by (auto simp: mutationFn_def split: sum.splits option.splits settled.splits)
next
  fix t'
  show "ExtensionSign t' \<notin> set (snd (uploadToBlossom w s f))"
    using assms
    by (auto simp: uploadToBlossom_def upload_try_def split: sum.splits option.splits)
qed

theorem local_key_takes_precedence_witness:
  "userSk logged_in = Some ''0a'' \<and> window_nostr both_world = Some sample_extension
   \<and> sign_event both_world (userSk logged_in) ''No signing method available''
        (note_template both_world logged_in ''hello'')
       = (Inr hello_event, [LocalSign (note_template both_world logged_in ''hello'') ''0a''])
   \<and> (\<forall>t'. ExtensionSign t' \<notin> set (snd (mutationFn both_world logged_in [0, 1] ''hello'')))
   \<and> (\<forall>t'. ExtensionSign t' \<notin> set (snd (uploadToBlossom both_world logged_in sample_file)))"
proof -
  have sk: "userSk logged_in = Some ''0a''"
    by (simp add: logged_in_def logged_out_def)
  have ne: "''0a'' \<noteq> []"
    by simp
  have fin: "finalizeEvent both_world (note_template both_world logged_in ''hello'') k = Inr hello_event" for k
    by (simp add: both_world_def key_world_def offline_world_def sample_finalize_def
        note_template_def logged_in_def logged_out_def hello_event_def)
  have ext: "window_nostr both_world = Some sample_extension"
    by (simp add: both_world_def)
  show ?thesis
    using local_key_takes_precedence [OF sk ne, of both_world "''No signing method available''"
        "note_template both_world logged_in ''hello''" "[0, 1]" "''hello''" sample_file]
    by (simp only: sk ext fin simp_thms)
qed

lemma js_sort_Nil_iff: "js_sort by_created_at_desc xs = [] \<longleftrightarrow> xs = []"
proof -
  have "js_sort by_created_at_desc xs = [] \<longleftrightarrow> mset (js_sort by_created_at_desc xs) = {#}"
    by simp
  then show ?thesis
    by (simp only: js_sort_mset mset_zero_iff)
qed

text \<open>
  C5, as the code has it. With no relay configured, \<^verbatim>\<open>mutationFn\<close> never
  returns an event: it throws, without a write to any relay, and when the user is logged in
  and the note is signed it throws the \<^verbatim>\<open>AggregateError\<close> of
  \<^verbatim>\<open>Promise.any\<close> over no promise, which has no cause. The feed query hands
  the empty list to the pool with no guard of its own: its result is the empty list
  exactly when the pool resolves with no event, and it stays pending exactly when the pool
  never resolves.
\<close>

theorem publish_no_relays:
  assumes "relays s = []"
  shows "(\<exists>e. fst (mutationFn w s sched c) = Some (Inl e))
     \<and> (\<forall>r ev. RelayWrite r ev \<notin> set (snd (mutationFn w s sched c)))
     \<and> (truthy (userPk s)
          \<and> fst (sign_event w (userSk s) ''No signing method available'' (note_template w s c)) = Inr ev
        \<longrightarrow> fst (mutationFn w s sched c) = Some (Inl (AggregateError [])))
     \<and> (notes_query_result w (relays s) = Some [] \<longleftrightarrow>
          querySync_settles w [] notes_filter \<and> querySync w [] notes_filter = [])
     \<and> (notes_query_result w (relays s) = None \<longleftrightarrow> \<not> querySync_settles w [] notes_filter)"
proof -
  have any: "promise_any (pool_publish w [] ev') sched = Some (Rejected [])" for ev'
    by (simp add: promise_any_rejected_iff length_pool_publish pool_publish_def)
  obtain r effs where sg:
    "sign_event w (userSk s) ''No signing method available'' (note_template w s c) = (r, effs)"
    by (cases "sign_event w (userSk s) ''No signing method available'' (note_template w s c)")
  have eff: "\<And>r' ev'. RelayWrite r' ev' \<notin> set effs"
    using sign_event_effects [of w "userSk s" "''No signing method available''" "note_template w s c"] sg
    by (auto split: if_splits)
  have q: "notes_query_result w [] = Some [] \<longleftrightarrow>
             querySync_settles w [] notes_filter \<and> querySync w [] notes_filter = []"
    "notes_query_result w [] = None \<longleftrightarrow> \<not> querySync_settles w [] notes_filter"
    by (simp_all add: notes_query_result_def notes_queryFn_def js_sort_Nil_iff)
  have p: "(\<exists>e. fst (mutationFn w s sched c) = Some (Inl e))
     \<and> (\<forall>r ev. RelayWrite r ev \<notin> set (snd (mutationFn w s sched c)))
     \<and> (truthy (userPk s)
          \<and> fst (sign_event w (userSk s) ''No signing method available'' (note_template w s c)) = Inr ev
        \<longrightarrow> fst (mutationFn w s sched c) = Some (Inl (AggregateError [])))"
    using assms sg any eff
    by (cases r) (auto simp: mutationFn_def)
  from p q show ?thesis
    unfolding assms by blast
qed

text \<open>
  C5, as the specification states it, fails. A logged-in user with a key and no relay gets
  the \<^verbatim>\<open>AggregateError\<close> in an alert, and the state is as before. And where the
  pool resolves a query only once a relay has answered, the feed query over no relay never
  returns.
\<close>

theorem publish_no_relays_counterexample:
  "relays no_relays = []
   \<and> fst (mutationFn key_world no_relays [] ''hello'') = Some (Inl (AggregateError []))
   \<and> publish_mutate key_world no_relays []
       = (no_relays, [LocalSign (note_template key_world no_relays ''hello'') ''0a'',
                      Alert (AggregateError [])])
   \<and> notes_query_result (key_world\<lparr>querySync_settles := settles_with_a_relay\<rparr>)
        (relays no_relays) = None"
  by (simp add: publish_mutate_def mutationFn_def no_relays_def logged_in_def logged_out_def
      key_world_def offline_world_def sample_finalize_def note_template_def pool_publish_def
      promise_any_def any_run_def any_init_def notes_query_result_def settles_with_a_relay_def)

theorem publish_no_relays_witness:
  "relays no_relays = []
   \<and> (\<exists>e. fst (mutationFn key_world no_relays [] ''hello'') = Some (Inl e))
   \<and> (\<forall>r ev. RelayWrite r ev \<notin> set (snd (mutationFn key_world no_relays [] ''hello'')))
   \<and> fst (mutationFn key_world no_relays [] ''hello'') = Some (Inl (AggregateError []))
   \<and> notes_query_result key_world (relays no_relays) = Some []
   \<and> notes_query_result (key_world\<lparr>querySync_settles := settles_with_a_relay\<rparr>)
        (relays no_relays) = None"
proof -
  let ?k = "key_world\<lparr>querySync_settles := settles_with_a_relay\<rparr>"
  have rs: "relays no_relays = []"
    by (simp add: no_relays_def)
  have pk: "truthy (userPk no_relays)"
    by (simp add: no_relays_def logged_in_def logged_out_def)
  have sg: "fst (sign_event key_world (userSk no_relays) ''No signing method available''
               (note_template key_world no_relays ''hello'')) = Inr hello_event"
    by (simp add: key_world_def offline_world_def no_relays_def logged_in_def logged_out_def
        note_template_def sample_finalize_def hello_event_def)
  have q: "querySync key_world [] notes_filter = []" "querySync_settles key_world [] notes_filter"
    "\<not> querySync_settles ?k [] notes_filter"
    by (simp_all add: key_world_def offline_world_def settles_with_a_relay_def)
  have k: "notes_query_result ?k (relays no_relays) = None"
    using publish_no_relays [OF rs, of ?k "[]" "''hello''" hello_event] q(3)
    by blast
  show ?thesis
    using publish_no_relays [OF rs, of key_world "[]" "''hello''" hello_event] pk sg q(1,2) rs k
    by simp
qed

text \<open>
  C8. When \<^verbatim>\<open>mutationFn\<close> has returned the event, the cached list of notes
  under the key of the current relays is the event followed by the list as it was (the
  empty list when nothing was cached), the lists under other keys are as they were, and no
  query has gone to a relay.
\<close>

theorem publish_success_prepends:
  assumes "fst (mutationFn w s sched (postContent s)) = Some (Inr ev)"
  shows "notes_data (fst (publish_mutate w s sched)) (relays s) = Some (ev # current_notes s)
     \<and> current_notes (fst (publish_mutate w s sched)) = ev # current_notes s
     \<and> (\<forall>k. k \<noteq> relays s \<longrightarrow> notes_data (fst (publish_mutate w s sched)) k = notes_data s k)
     \<and> (\<forall>rs f. RelayQuery rs f \<notin> set (snd (publish_mutate w s sched)))"
proof -
  obtain effs where m: "mutationFn w s sched (postContent s) = (Some (Inr ev), effs)"
    using assms by (cases "mutationFn w s sched (postContent s)") simp
  have "RelayQuery rs f \<notin> set effs" for rs f
  proof -
    obtain r effs' where sg:
      "sign_event w (userSk s) ''No signing method available'' (note_template w s (postContent s))
         = (r, effs')"
      by (cases "sign_event w (userSk s) ''No signing method available''
                   (note_template w s (postContent s))")
    have "RelayQuery rs f \<notin> set effs'"
      using sign_event_effects [of w "userSk s" "''No signing method available''"
          "note_template w s (postContent s)"] sg
      by (auto split: if_splits)
    with m sg show ?thesis
      by (cases r)
        (auto simp: mutationFn_def split: if_splits option.splits settled.splits)
  qed
  with m show ?thesis
    by (simp add: publish_mutate_def onSuccess_def current_notes_def)
qed

theorem publish_success_prepends_witness:
  "fst (mutationFn (key_world\<lparr>relay_publish := second_relay_acks\<rparr>) logged_in [1]
          (postContent logged_in)) = Some (Inr hello_event)
   \<and> current_notes logged_in = []
   \<and> current_notes (fst (publish_mutate (key_world\<lparr>relay_publish := second_relay_acks\<rparr>)
        logged_in [1])) = [hello_event]"
proof -
  have m: "fst (mutationFn (key_world\<lparr>relay_publish := second_relay_acks\<rparr>) logged_in [1]
          (postContent logged_in)) = Some (Inr hello_event)"
    by (simp add: mutationFn_def logged_in_def logged_out_def
      key_world_def offline_world_def sample_finalize_def note_template_def pool_publish_def
      promise_any_def any_run_def any_init_def second_relay_acks_def hello_event_def)
  have n: "current_notes logged_in = []"
    by (simp add: current_notes_def logged_in_def logged_out_def)
  show ?thesis
    using publish_success_prepends [OF m] m n
    by (simp only: simp_thms)
qed

section \<open>Properties of the metadata query\<close>

lemma foldl_put_metadata_None:
  "foldl (put_metadata w) m evs pk = None \<longleftrightarrow>
     m pk = None \<and> (\<forall>e\<in>set evs. pubkey e = pk \<longrightarrow> json_parse w (content e) = None)"
  by (induction evs arbitrary: m) (auto simp: put_metadata_def split: option.splits)

lemma foldl_put_metadata_parsable:
  "foldl (put_metadata w) m evs
     = foldl (put_metadata w) m (filter (\<lambda>e. json_parse w (content e) \<noteq> None) evs)"
  by (induction evs arbitrary: m) (auto simp: put_metadata_def split: option.splits)

lemma foldl_put_metadata_last:
  "foldl (put_metadata w) m evs pk =
     (if filter (\<lambda>e. pubkey e = pk \<and> json_parse w (content e) \<noteq> None) evs = [] then m pk
      else json_parse w
             (content (last (filter (\<lambda>e. pubkey e = pk \<and> json_parse w (content e) \<noteq> None) evs))))"
proof (induction evs rule: rev_induct)
  case Nil
  show ?case by simp
next
  case (snoc e evs)
  show ?case
  proof (cases "pubkey e = pk \<and> json_parse w (content e) \<noteq> None")
    case True
    then show ?thesis
      by (auto simp: put_metadata_def)
  next
    case False
    then have "put_metadata w (foldl (put_metadata w) m evs) e pk = foldl (put_metadata w) m evs pk"
      by (auto simp: put_metadata_def split: option.splits)
    with False snoc show ?thesis
      by auto
  qed
qed

text \<open>
  C9, as the code has it. \<^verbatim>\<open>queryFn\<close> always returns a map, and an event
  whose content does not parse adds nothing to it: the map is the one built from the
  events that parse. A public key has no entry exactly when none of its events parses;
  otherwise its entry is the parsed content of the last of its events that parses.
\<close>

theorem metadata_skips_unparsable:
  assumes "as \<noteq> []"
  shows "fst (metadata_queryFn w rs as)
       = foldl (put_metadata w) Map.empty
           (filter (\<lambda>e. json_parse w (content e) \<noteq> None) (querySync w rs (metadata_filter as)))
     \<and> (fst (metadata_queryFn w rs as) pk = None \<longleftrightarrow>
          (\<forall>e\<in>set (querySync w rs (metadata_filter as)).
              pubkey e = pk \<longrightarrow> json_parse w (content e) = None))
     \<and> fst (metadata_queryFn w rs as) pk =
          (if filter (\<lambda>e. pubkey e = pk \<and> json_parse w (content e) \<noteq> None)
                (querySync w rs (metadata_filter as)) = [] then None
           else json_parse w
                  (content (last (filter (\<lambda>e. pubkey e = pk \<and> json_parse w (content e) \<noteq> None)
                                    (querySync w rs (metadata_filter as))))))"
  using assms foldl_put_metadata_parsable [of w Map.empty "querySync w rs (metadata_filter as)"]
    foldl_put_metadata_None [of w Map.empty "querySync w rs (metadata_filter as)" pk]
    foldl_put_metadata_last [of w Map.empty "querySync w rs (metadata_filter as)" pk]
  by (simp add: metadata_queryFn_def)

text \<open>
  C9, as the specification states it, fails when a public key has two events: the second
  event of \<open>''A''\<close> does not parse, and \<open>''A''\<close> has an entry all the same, from
  the first.
\<close>

theorem metadata_second_event_counterexample:
  "querySync profile_world [''wss://r1''] (metadata_filter [''A''])
     = [profile_ev ''e1'' ''A'' ''{}'', profile_ev ''e2'' ''A'' ''not json'',
        profile_ev ''e3'' ''B'' ''not json'']
   \<and> json_parse profile_world (content (profile_ev ''e2'' ''A'' ''not json'')) = None
   \<and> fst (metadata_queryFn profile_world [''wss://r1''] [''A'']) ''A'' = Some (JObj [])"
  by (simp add: metadata_queryFn_def profile_world_def offline_world_def pool_returning_def
      profile_ev_def parse_braces_def put_metadata_def)

theorem metadata_skips_unparsable_witness:
  "fst (metadata_queryFn profile_world [''wss://r1''] [''A'', ''B'']) ''B'' = None
   \<and> fst (metadata_queryFn profile_world [''wss://r1''] [''A'', ''B'']) ''A'' = Some (JObj [])"
proof -
  have ne: "[''A'', ''B''] \<noteq> []"
    by simp
  have q: "querySync profile_world [''wss://r1''] (metadata_filter [''A'', ''B''])
     = [profile_ev ''e1'' ''A'' ''{}'', profile_ev ''e2'' ''A'' ''not json'',
        profile_ev ''e3'' ''B'' ''not json'']"
    by (simp add: profile_world_def pool_returning_def)
  have p: "json_parse profile_world = parse_braces"
    by (simp add: profile_world_def)
  show ?thesis
    using metadata_skips_unparsable [OF ne, of profile_world "[''wss://r1'']" "''B''"]
      metadata_skips_unparsable [OF ne, of profile_world "[''wss://r1'']" "''A''"]
    by (simp add: q p profile_ev_def parse_braces_def put_metadata_def)
qed

lemma metadata_queryFn_effects:
  "snd (metadata_queryFn w rs as) = (if as = [] then [] else [RelayQuery rs (metadata_filter as)])"
  by (simp add: metadata_queryFn_def)

lemma metadata_fetch_effects:
  "snd (snd (metadata_fetch w s)) =
     (if authorPubkeys s = [] then []
      else [RelayQuery (relays s) (metadata_filter (authorPubkeys s))])"
  using metadata_queryFn_effects [of w "relays s" "authorPubkeys s"]
  by (cases "metadata_queryFn w (relays s) (authorPubkeys s)") (simp add: metadata_fetch_def)

text \<open>
  C4, as the code has it. The metadata is cached under the key made of the whole list of
  authors and the list of relays, with \<^verbatim>\<open>staleTime\<close> of 600000 ms. A lookup
  whose key has data younger than that makes no call and changes nothing. A lookup with
  authors whose key has no data, or data that old, sends one query, for all the authors of
  the list. A lookup with no author sends none.
\<close>

theorem metadata_cached_by_key:
  "(metadata_data s (authorPubkeys s, relays s) = Some (m, t) \<and> date_now w - t < staleTime
      \<longrightarrow> metadata_useQuery w s = (s, m, []))
   \<and> (authorPubkeys s \<noteq> []
        \<and> (metadata_data s (authorPubkeys s, relays s) = None
             \<or> (\<exists>m' t'. metadata_data s (authorPubkeys s, relays s) = Some (m', t')
                        \<and> staleTime \<le> date_now w - t'))
      \<longrightarrow> snd (snd (metadata_useQuery w s))
            = [RelayQuery (relays s) (metadata_filter (authorPubkeys s))])
   \<and> (authorPubkeys s = [] \<longrightarrow> snd (snd (metadata_useQuery w s)) = [])
   \<and> staleTime = 600000"
  using metadata_fetch_effects [of w s]
  by (auto simp: metadata_useQuery_def staleTime_def split: option.splits)

text \<open>
  C4, as the specification states it, fails. The metadata of \<open>''A''\<close> was fetched at
  time 0, when \<open>''A''\<close> was the only author; at time 1000 the feed has a note of
  \<open>''B''\<close> as well, the key is new, and the query that goes out asks for \<open>''A''\<close>
  again.
\<close>

theorem metadata_new_author_counterexample:
  "metadata_data feed_of_two ([''A''], relays feed_of_two) = Some ([''A'' \<mapsto> JObj []], 0)
   \<and> date_now profile_world - 0 < staleTime
   \<and> snd (snd (metadata_useQuery profile_world feed_of_two))
       = [RelayQuery [''wss://r1'', ''wss://r2'']
            \<lparr>kinds = [0], authors = Some [''A'', ''B''], limit = None\<rparr>]"
  by (simp add: metadata_useQuery_def metadata_fetch_def metadata_queryFn_def metadata_filter_def
      authorPubkeys_def current_notes_def set_to_array_def feed_of_two_def logged_out_def
      profile_world_def offline_world_def staleTime_def note_ev_def)

theorem metadata_cached_by_key_witness:
  "metadata_data fresh_for_two (authorPubkeys fresh_for_two, relays fresh_for_two)
     = Some ([''A'' \<mapsto> JObj []], 500)
   \<and> date_now profile_world - 500 < staleTime
   \<and> metadata_useQuery profile_world fresh_for_two = (fresh_for_two, [''A'' \<mapsto> JObj []], [])
   \<and> authorPubkeys feed_of_two = [''A'', ''B'']
   \<and> metadata_data feed_of_two (authorPubkeys feed_of_two, relays feed_of_two) = None
   \<and> snd (snd (metadata_useQuery profile_world feed_of_two))
       = [RelayQuery (relays feed_of_two) (metadata_filter (authorPubkeys feed_of_two))]"
proof -
  have a: "authorPubkeys fresh_for_two = [''A'', ''B'']" "authorPubkeys feed_of_two = [''A'', ''B'']"
    by (simp_all add: authorPubkeys_def current_notes_def set_to_array_def fresh_for_two_def
        feed_of_two_def logged_out_def note_ev_def)
  have r: "relays fresh_for_two = [''wss://r1'', ''wss://r2'']"
    "relays feed_of_two = [''wss://r1'', ''wss://r2'']"
    by (simp_all add: fresh_for_two_def feed_of_two_def logged_out_def)
  have c1: "metadata_data fresh_for_two (authorPubkeys fresh_for_two, relays fresh_for_two)
             = Some ([''A'' \<mapsto> JObj []], 500)"
    unfolding a r by (simp add: fresh_for_two_def feed_of_two_def logged_out_def)
  have c2: "metadata_data feed_of_two (authorPubkeys feed_of_two, relays feed_of_two) = None"
    unfolding a r by (simp add: feed_of_two_def logged_out_def)
  have d: "date_now profile_world - 500 < staleTime"
    by (simp add: profile_world_def staleTime_def)
  have ne: "authorPubkeys feed_of_two \<noteq> []"
    unfolding a by simp
  from metadata_cached_by_key [of fresh_for_two "[''A'' \<mapsto> JObj []]" 500 profile_world] c1 d
  have g1: "metadata_useQuery profile_world fresh_for_two
              = (fresh_for_two, [''A'' \<mapsto> JObj []], [])"
    by blast
  from metadata_cached_by_key [of feed_of_two Map.empty 0 profile_world] c2 ne
  have g2: "snd (snd (metadata_useQuery profile_world feed_of_two))
       = [RelayQuery (relays feed_of_two) (metadata_filter (authorPubkeys feed_of_two))]"
    by blast
  from c1 d g1 a(2) c2 g2 show ?thesis
    by (intro conjI)
qed

section \<open>Properties of the media upload\<close>
















text \<open>
  Whatever the \<^verbatim>\<open>try\<close> block throws is shown in one alert, after the calls
  made so far, and the attachments stay as they were. A body that is
  \<^verbatim>\<open>null\<close> is not among these: the \<^verbatim>\<open>try\<close> block ends well,
  and the \<^verbatim>\<open>TypeError\<close> of \<^verbatim>\<open>data.url\<close> is thrown when the
  updater runs, where no alert shows it.
\<close>

lemma upload_failure_alerts_once:
  assumes "truthy (userPk s)" and "fst (upload_try w s f) = Inl e"
  shows "uploadToBlossom w s f = (s\<lparr>isUploading := False\<rparr>, snd (upload_try w s f) @ [Alert e])"
  using assms by (cases "upload_try w s f") (simp add: uploadToBlossom_def)

lemma upload_null_body_uncaught:
  assumes "truthy (userPk s)" and "fst (upload_try w s f) = Inr JNull"
  shows "uploadToBlossom w s f
           = (s\<lparr>isUploading := True\<rparr>, snd (upload_try w s f) @ [Uncaught TypeError])"
  using assms by (cases "upload_try w s f") (simp add: uploadToBlossom_def append_url_def)


lemma upload_to_blossom_world:
  "uploadToBlossom (blossom_world data) logged_in sample_file =
     (case prop_url data of
        Inr url \<Rightarrow>
          (logged_in\<lparr>attachments := attachments logged_in @ [url], isUploading := False\<rparr>,
           [LocalSign (upload_template (blossom_world data) sample_file ''ab01'') ''0a'',
            Fetch sample_request])
      | Inl e \<Rightarrow>
          (logged_in\<lparr>isUploading := True\<rparr>,
           [LocalSign (upload_template (blossom_world data) sample_file ''ab01'') ''0a'',
            Fetch sample_request, Uncaught e]))"
proof -
  have hex: "bytesToHex [0xAB, 0x01] = ''ab01''"
    by (simp add: bytesToHex_def byte_hex_def hex_digit_def)
  have pk: "truthy (userPk logged_in)" and sk: "userSk logged_in = Some ''0a''"
    by (simp_all add: logged_in_def logged_out_def)
  have w: "unreadable (blossom_world data) sample_file = None"
    "sha256_digest (blossom_world data) = sample_digest"
    "btoa_stringify (blossom_world data) = sample_btoa"
    "fetch (blossom_world data) = fetch_returning \<lparr>resp_ok = True, resp_json = Inr data\<rparr>"
    "finalizeEvent (blossom_world data) = sample_finalize"
    by (simp_all add: blossom_world_def key_world_def offline_world_def)
  have rq: "upload_request sample_file ''eyJraW5kIjoyNDI0Mn0='' = sample_request"
    by (simp add: upload_request_def sample_request_def BLOSSOM_SERVERS_def)
  show ?thesis
    by (simp add: uploadToBlossom_def upload_try_def arrayBuffer_def read_upload_response_def
        append_url_def pk sk w hex rq sample_digest_def sample_btoa_def fetch_returning_def
        sample_finalize_def split: sum.splits)
qed

lemma upload_to_ext_blossom_world:
  "uploadToBlossom (ext_blossom_world data) pk_only sample_file =
     (case prop_url data of
        Inr url \<Rightarrow>
          (pk_only\<lparr>attachments := attachments pk_only @ [url], isUploading := False\<rparr>,
           [ExtensionSign (upload_template (ext_blossom_world data) sample_file ''ab01''),
            Fetch sample_request])
      | Inl e \<Rightarrow>
          (pk_only\<lparr>isUploading := True\<rparr>,
           [ExtensionSign (upload_template (ext_blossom_world data) sample_file ''ab01''),
            Fetch sample_request, Uncaught e]))"
proof -
  have hex: "bytesToHex [0xAB, 0x01] = ''ab01''"
    by (simp add: bytesToHex_def byte_hex_def hex_digit_def)
  have pk: "truthy (userPk pk_only)" and sk: "userSk pk_only = None"
    by (simp_all add: pk_only_def logged_out_def)
  have w: "unreadable (ext_blossom_world data) sample_file = None"
    "sha256_digest (ext_blossom_world data) = sample_digest"
    "btoa_stringify (ext_blossom_world data) = sample_btoa"
    "fetch (ext_blossom_world data) = fetch_returning \<lparr>resp_ok = True, resp_json = Inr data\<rparr>"
    "window_nostr (ext_blossom_world data) = Some sample_extension"
    by (simp_all add: ext_blossom_world_def blossom_world_def key_world_def offline_world_def)
  have rq: "upload_request sample_file ''eyJraW5kIjoyNDI0Mn0='' = sample_request"
    by (simp add: upload_request_def sample_request_def BLOSSOM_SERVERS_def)
  show ?thesis
    by (simp add: uploadToBlossom_def upload_try_def arrayBuffer_def read_upload_response_def
        append_url_def sign_with_extension_def pk sk w hex rq sample_digest_def sample_btoa_def
        fetch_returning_def sample_extension_def split: sum.splits)
qed

text \<open>
  C6 at a response the code mishandles. The server answers 200 with a JSON object that has
  no \<^verbatim>\<open>url\<close>: no failure is reported, and \<^verbatim>\<open>undefined\<close> is
  appended to the attachments, for a user who signs with a secret key and for one who signs
  with the extension.
\<close>

theorem upload_body_without_url:
  "attachments logged_in = []
   \<and> prop_url stored_without_url = Inr JUndefined
   \<and> attachments (fst (uploadToBlossom (blossom_world stored_without_url) logged_in sample_file))
       = [JUndefined]
   \<and> (\<forall>e. Alert e \<notin> set (snd (uploadToBlossom (blossom_world stored_without_url) logged_in sample_file)))
   \<and> (\<forall>e. Uncaught e \<notin> set (snd (uploadToBlossom (blossom_world stored_without_url) logged_in sample_file)))
   \<and> attachments pk_only = []
   \<and> attachments (fst (uploadToBlossom (ext_blossom_world stored_without_url) pk_only sample_file))
       = [JUndefined]
   \<and> (\<forall>e. Alert e \<notin> set (snd (uploadToBlossom (ext_blossom_world stored_without_url) pk_only sample_file)))
   \<and> (\<forall>e. Uncaught e \<notin> set (snd (uploadToBlossom (ext_blossom_world stored_without_url) pk_only sample_file)))"
proof -
  have u: "prop_url stored_without_url = Inr JUndefined"
    by (simp add: stored_without_url_def)
  have a: "attachments logged_in = []" "attachments pk_only = []"
    by (simp_all add: logged_in_def pk_only_def logged_out_def)
  show ?thesis
    by (simp add: upload_to_blossom_world upload_to_ext_blossom_world u a)
qed


end
